theory Spec2Isabelle
  imports Main "HOL-Library.AList"
begin

section \<open>The STOMP WebSocket client of the dashboard (class StompWebSocketClient)\<close>

text \<open>
  The embedding follows the client with market data support (the larger of the two
  copies of the service; the smaller one, \<^verbatim>\<open>services/websocket.ts\<close>, is the same code
  without the three market registries). The object's fields and the part of the browser
  it talks to (the WebSocket objects it created, the frames they carried, the timers it
  armed, the callbacks it called) form one record that every method takes and returns.
\<close>

subsection \<open>JavaScript strings\<close>

text \<open>
  Strings are lists of 8-bit characters: the frames of the protocol are ASCII.
  \<^verbatim>\<open>s.startsWith(p)\<close>, \<^verbatim>\<open>s.includes(p)\<close>, \<^verbatim>\<open>s.split('\n')\<close> and \<^verbatim>\<open>s.trim()\<close>.
\<close>

definition NL :: char where
  "NL = CHR 0x0A"

definition NUL :: char where
  "NUL = CHR 0x00"

definition startsWith :: "string \<Rightarrow> string \<Rightarrow> bool" where
  "startsWith s p = (take (length p) s = p)"

fun str_includes :: "string \<Rightarrow> string \<Rightarrow> bool" where
  "str_includes [] p = (p = [])"
| "str_includes (c # s) p = (startsWith (c # s) p \<or> str_includes s p)"

fun split_str :: "char \<Rightarrow> string \<Rightarrow> string list" where
  "split_str sep [] = [[]]"
| "split_str sep (c # s) =
     (if c = sep then [] # split_str sep s
      else (case split_str sep s of
              [] \<Rightarrow> [[c]]
            | l # ls \<Rightarrow> (c # l) # ls))"

definition isWhiteSpace :: "char \<Rightarrow> bool" where
  "isWhiteSpace c = (c \<in> set [CHR 0x09, CHR 0x0A, CHR 0x0B, CHR 0x0C, CHR 0x0D, CHR 0x20, CHR 0xA0])"

definition trim :: "string \<Rightarrow> string" where
  "trim s = rev (dropWhile isWhiteSpace (rev (dropWhile isWhiteSpace s)))"

text \<open>Decimal rendering of a number inside a template literal.\<close>

fun digits :: "nat \<Rightarrow> nat \<Rightarrow> string" where
  "digits 0 n = []"
| "digits (Suc fuel) n =
     (if n < 10 then [char_of (48 + n)]
      else digits fuel (n div 10) @ [char_of (48 + n mod 10)])"

definition toString :: "nat \<Rightarrow> string" where
  "toString n = digits (Suc n) n"

subsection \<open>Frames on the wire\<close>

datatype scope = balance | positions | orders | market

fun scope_text :: "scope \<Rightarrow> string" where
  "scope_text balance = ''balance''"
| "scope_text positions = ''positions''"
| "scope_text orders = ''orders''"
| "scope_text market = ''market''"

text \<open>
  The frames the client writes. Each constructor stands for one template literal of the
  source; \<open>encode\<close> is the text that literal builds.
\<close>

datatype frame =
    CONNECT
  | SUBSCRIBE nat string
  | UNSUBSCRIBE nat
  | SEND string scope
  | DISCONNECT

definition stringify :: "scope \<Rightarrow> string" where
  "stringify sc = ''{\"request\":\"GET\",\"scope\":\"'' @ scope_text sc @ ''\"}''"

fun encode :: "frame \<Rightarrow> string" where
  "encode CONNECT = ''CONNECT'' @ [NL] @ ''accept-version:1.2,2.0'' @ [NL, NL, NUL]"
| "encode (SUBSCRIBE subId destination) =
     ''SUBSCRIBE'' @ [NL] @ ''id:'' @ toString subId @ [NL] @
     ''destination:'' @ destination @ [NL] @ ''ack:auto'' @ [NL, NL, NUL]"
| "encode (UNSUBSCRIBE subId) =
     ''UNSUBSCRIBE'' @ [NL] @ ''id:'' @ toString subId @ [NL, NL, NUL]"
| "encode (SEND destination sc) =
     ''SEND'' @ [NL] @ ''destination:'' @ destination @ [NL] @
     ''content-type:application/json'' @ [NL] @
     ''content-length:'' @ toString (length (stringify sc)) @ [NL, NL] @
     stringify sc @ [NUL]"
| "encode DISCONNECT = ''DISCONNECT'' @ [NL, NL, NUL]"

subsection \<open>The client and its environment\<close>

datatype readyState = CONNECTING | OPEN | CLOSING | CLOSED

text \<open>
  A callback is a function object of the caller, compared by identity
  (\<^verbatim>\<open>indexOf\<close>): it is modelled by a number. What a callback does when called is outside
  the client; the model records the call and is told whether the call raises.
  A \<^verbatim>\<open>Map\<close> is an association list in insertion order.

  The first eleven fields are the fields of the class. \<open>sockets\<close> holds the ready state
  of every WebSocket object constructed so far (the position is the object's identity,
  \<open>ws\<close> refers to one of them), \<open>outbox\<close> the frames accepted by \<^verbatim>\<open>send\<close> with the
  socket that took them, \<open>timers\<close> the delays of the pending \<^verbatim>\<open>setTimeout\<close> calls (each of
  them runs \<^verbatim>\<open>connectInternal\<close>), \<open>delivered\<close> the callback calls made, with their
  argument.
\<close>

record 'v world =
  ws :: "nat option"
  reconnectAttempts :: nat
  maxReconnectAttempts :: nat
  reconnectDelay :: nat
  callbacks :: "(string \<times> nat list) list"
  marketCallbacks :: "(string \<times> nat list) list"
  depthCallbacks :: "(string \<times> nat list) list"
  lastTradeCallbacks :: "(string \<times> nat list) list"
  subscriptions :: "(string \<times> nat) list"
  subscriptionCounter :: nat
  connected :: bool
  sockets :: "readyState list"
  outbox :: "(nat \<times> frame) list"
  timers :: "nat list"
  delivered :: "(nat \<times> 'v) list"

definition initial :: "'v world" where
  "initial =
     \<lparr> ws = None, reconnectAttempts = 0, maxReconnectAttempts = 5, reconnectDelay = 1000,
       callbacks = [], marketCallbacks = [], depthCallbacks = [], lastTradeCallbacks = [],
       subscriptions = [], subscriptionCounter = 0, connected = False,
       sockets = [], outbox = [], timers = [], delivered = [] \<rparr>"

text \<open>
  A statement of the source either completes or raises; in both cases the assignments
  made so far stay.
\<close>

datatype 'w completion = Normal 'w | Throw 'w

fun andThen :: "'w completion \<Rightarrow> ('w \<Rightarrow> 'w completion) \<Rightarrow> 'w completion" where
  "andThen (Normal w) f = f w"
| "andThen (Throw w) f = Throw w"

fun state_of :: "'w completion \<Rightarrow> 'w" where
  "state_of (Normal w) = w"
| "state_of (Throw w) = w"


text \<open>\<^verbatim>\<open>try { m } catch { }\<close>\<close>

definition swallow :: "'w completion \<Rightarrow> 'w completion" where
  "swallow m = Normal (state_of m)"

definition has :: "('k \<times> 'a) list \<Rightarrow> 'k \<Rightarrow> bool" where
  "has m k = (map_of m k \<noteq> None)"

definition readyStateOf :: "'v world \<Rightarrow> nat \<Rightarrow> readyState" where
  "readyStateOf w h = (if h < length (sockets w) then sockets w ! h else CLOSED)"

text \<open>\<^verbatim>\<open>this.ws?.readyState\<close>: undefined when there is no socket.\<close>

definition ws_readyState :: "'v world \<Rightarrow> readyState option" where
  "ws_readyState w = (case ws w of None \<Rightarrow> None | Some h \<Rightarrow> Some (readyStateOf w h))"

text \<open>
  \<^verbatim>\<open>this.ws.send(msg)\<close>: a TypeError on null, an InvalidStateError while the socket is
  connecting; an open socket takes the frame, a closing or closed one drops it.
\<close>

definition ws_send :: "frame \<Rightarrow> 'v world \<Rightarrow> 'v world completion" where
  "ws_send msg w =
     (case ws w of
        None \<Rightarrow> Throw w
      | Some h \<Rightarrow>
          (case readyStateOf w h of
             CONNECTING \<Rightarrow> Throw w
           | OPEN \<Rightarrow> Normal (w\<lparr>outbox := outbox w @ [(h, msg)]\<rparr>)
           | CLOSING \<Rightarrow> Normal w
           | CLOSED \<Rightarrow> Normal w))"

text \<open>\<^verbatim>\<open>socket.close()\<close>: a socket that is connecting or open starts closing.\<close>

definition ws_close :: "nat \<Rightarrow> 'v world \<Rightarrow> 'v world" where
  "ws_close h w =
     (if readyStateOf w h = CONNECTING \<or> readyStateOf w h = OPEN
      then w\<lparr>sockets := (sockets w)[h := CLOSING]\<rparr> else w)"

subsection \<open>Connecting and reconnecting\<close>

definition connect :: "'v world \<Rightarrow> 'v world" where
  "connect w =
     (if ws_readyState w = Some OPEN \<or> connected w then w
      else w\<lparr>timers := timers w @ [500]\<rparr>)"

definition attemptReconnect :: "'v world \<Rightarrow> 'v world" where
  "attemptReconnect w =
     (if reconnectAttempts w < maxReconnectAttempts w then
        (let w1 = w\<lparr>reconnectAttempts := reconnectAttempts w + 1\<rparr>;
             delay = reconnectDelay w1 * 2 ^ (reconnectAttempts w1 - 1)
         in w1\<lparr>timers := timers w1 @ [delay]\<rparr>)
      else w)"

text \<open>
  \<open>ctorThrows\<close> says whether \<^verbatim>\<open>new WebSocket(this.wsUrl)\<close> raises; then the assignment
  to \<open>ws\<close> does not happen and the catch clause runs. The four handlers the method installs
  on the new socket are the \<open>on...\<close> functions below.
\<close>

definition connectInternal :: "bool \<Rightarrow> 'v world \<Rightarrow> 'v world" where
  "connectInternal ctorThrows w =
     (if ctorThrows then attemptReconnect w
      else w\<lparr>ws := Some (length (sockets w)), sockets := sockets w @ [CONNECTING]\<rparr>)"

definition sendConnect :: "'v world \<Rightarrow> 'v world completion" where
  "sendConnect w = (if ws_readyState w = Some OPEN then ws_send CONNECT w else Normal w)"

definition onopen :: "'v world \<Rightarrow> 'v world completion" where
  "onopen w = sendConnect (w\<lparr>connected := False\<rparr>)"

definition onerror :: "'v world \<Rightarrow> 'v world completion" where
  "onerror w = Normal w"

definition onclose :: "'v world \<Rightarrow> 'v world completion" where
  "onclose w = Normal (attemptReconnect (w\<lparr>connected := False\<rparr>))"

subsection \<open>Subscriptions\<close>

definition subscribeToDestination :: "string \<Rightarrow> 'v world \<Rightarrow> 'v world completion" where
  "subscribeToDestination destination w =
     (if has (subscriptions w) destination then Normal w
      else
        (let w1 = w\<lparr>subscriptionCounter := subscriptionCounter w + 1\<rparr>;
             subId = subscriptionCounter w1;
             w2 = w1\<lparr>subscriptions := AList.update destination subId (subscriptions w1)\<rparr>;
             subscribeMsg = SUBSCRIBE subId destination
         in if ws_readyState w2 = Some OPEN then ws_send subscribeMsg w2 else Normal w2))"

fun subscribeEach :: "string list \<Rightarrow> 'v world \<Rightarrow> 'v world completion" where
  "subscribeEach [] w = Normal w"
| "subscribeEach (destination # rest) w =
     andThen (subscribeToDestination destination w) (subscribeEach rest)"

definition resubscribeAll :: "'v world \<Rightarrow> 'v world completion" where
  "resubscribeAll w =
     andThen (subscribeEach (map fst (callbacks w)) w) (\<lambda>w1.
     andThen (subscribeEach (map fst (marketCallbacks w1)) w1) (\<lambda>w2.
     andThen (subscribeEach (map fst (depthCallbacks w2)) w2) (\<lambda>w3.
     subscribeEach (map fst (lastTradeCallbacks w3)) w3)))"

definition accountDestination :: "string \<Rightarrow> string" where
  "accountDestination accountKey = ''/account/'' @ accountKey @ ''/updates''"

definition depthDestinationOf :: "string \<Rightarrow> string" where
  "depthDestinationOf instrumentKey = ''/markets/'' @ instrumentKey @ ''/depth''"

definition lastTradeDestinationOf :: "string \<Rightarrow> string" where
  "lastTradeDestinationOf instrumentKey = ''/markets/'' @ instrumentKey @ ''/last_trade''"

text \<open>
  \<^verbatim>\<open>if (!m.has(d)) m.set(d, []); m.get(d)!.push(callback)\<close> on one of the registries.
\<close>

definition register :: "string \<Rightarrow> nat \<Rightarrow> (string \<times> nat list) list \<Rightarrow> (string \<times> nat list) list" where
  "register destination callback m =
     (let m1 = (if \<not> has m destination then AList.update destination [] m else m)
      in AList.map_entry destination (\<lambda>cbs. cbs @ [callback]) m1)"

definition subscribe :: "string \<Rightarrow> nat \<Rightarrow> 'v world \<Rightarrow> 'v world completion" where
  "subscribe accountKey callback w =
     (let destination = accountDestination accountKey;
          w1 = w\<lparr>callbacks := register destination callback (callbacks w)\<rparr>
      in if connected w1 \<and> ws_readyState w1 = Some OPEN
         then subscribeToDestination destination w1 else Normal w1)"

text \<open>
  The tail shared by the three unsubscribe blocks, after the callback list of the
  destination became empty and its entry was deleted:
  \<^verbatim>\<open>const subId = this.subscriptions.get(d); if (subId && this.ws?.readyState === OPEN) {...}\<close>
\<close>

definition dropSubscription :: "string \<Rightarrow> 'v world \<Rightarrow> 'v world completion" where
  "dropSubscription destination w =
     (case map_of (subscriptions w) destination of
        None \<Rightarrow> Normal w
      | Some subId \<Rightarrow>
          if subId \<noteq> 0 \<and> ws_readyState w = Some OPEN then
            andThen (ws_send (UNSUBSCRIBE subId) w) (\<lambda>w1.
              Normal (w1\<lparr>subscriptions := AList.delete destination (subscriptions w1)\<rparr>))
          else Normal w)"

definition unsubscribe :: "string \<Rightarrow> nat \<Rightarrow> 'v world \<Rightarrow> 'v world completion" where
  "unsubscribe accountKey callback w =
     (let destination = accountDestination accountKey in
      case map_of (callbacks w) destination of
        None \<Rightarrow> Normal w
      | Some cbs \<Rightarrow>
          (let cbs1 = remove1 callback cbs;
               w1 = w\<lparr>callbacks := AList.update destination cbs1 (callbacks w)\<rparr>
           in if length cbs1 = 0 then
                dropSubscription destination
                  (w1\<lparr>callbacks := AList.delete destination (callbacks w1)\<rparr>)
              else Normal w1))"

definition subscribeToMarketData :: "string \<Rightarrow> nat \<Rightarrow> nat \<Rightarrow> 'v world \<Rightarrow> 'v world completion" where
  "subscribeToMarketData instrumentKey depthCallback lastTradeCallback w =
     (let depthDestination = depthDestinationOf instrumentKey;
          lastTradeDestination = lastTradeDestinationOf instrumentKey;
          w1 = w\<lparr>depthCallbacks := register depthDestination depthCallback (depthCallbacks w)\<rparr>;
          w2 = w1\<lparr>lastTradeCallbacks :=
                    register lastTradeDestination lastTradeCallback (lastTradeCallbacks w1)\<rparr>
      in if connected w2 \<and> ws_readyState w2 = Some OPEN
         then andThen (subscribeToDestination depthDestination w2)
                (subscribeToDestination lastTradeDestination)
         else Normal w2)"

definition unsubscribeDepth :: "string \<Rightarrow> nat \<Rightarrow> 'v world \<Rightarrow> 'v world completion" where
  "unsubscribeDepth depthDestination depthCallback w =
     (case map_of (depthCallbacks w) depthDestination of
        None \<Rightarrow> Normal w
      | Some cbs \<Rightarrow>
          (let cbs1 = remove1 depthCallback cbs;
               w1 = w\<lparr>depthCallbacks := AList.update depthDestination cbs1 (depthCallbacks w)\<rparr>
           in if length cbs1 = 0 then
                dropSubscription depthDestination
                  (w1\<lparr>depthCallbacks := AList.delete depthDestination (depthCallbacks w1)\<rparr>)
              else Normal w1))"

definition unsubscribeLastTrade :: "string \<Rightarrow> nat \<Rightarrow> 'v world \<Rightarrow> 'v world completion" where
  "unsubscribeLastTrade lastTradeDestination lastTradeCallback w =
     (case map_of (lastTradeCallbacks w) lastTradeDestination of
        None \<Rightarrow> Normal w
      | Some cbs \<Rightarrow>
          (let cbs1 = remove1 lastTradeCallback cbs;
               w1 = w\<lparr>lastTradeCallbacks :=
                         AList.update lastTradeDestination cbs1 (lastTradeCallbacks w)\<rparr>
           in if length cbs1 = 0 then
                dropSubscription lastTradeDestination
                  (w1\<lparr>lastTradeCallbacks :=
                        AList.delete lastTradeDestination (lastTradeCallbacks w1)\<rparr>)
              else Normal w1))"

definition unsubscribeFromMarketData :: "string \<Rightarrow> nat \<Rightarrow> nat \<Rightarrow> 'v world \<Rightarrow> 'v world completion" where
  "unsubscribeFromMarketData instrumentKey depthCallback lastTradeCallback w =
     andThen (unsubscribeDepth (depthDestinationOf instrumentKey) depthCallback w)
       (unsubscribeLastTrade (lastTradeDestinationOf instrumentKey) lastTradeCallback)"

definition sendRequest :: "string \<Rightarrow> scope \<Rightarrow> 'v world \<Rightarrow> 'v world completion" where
  "sendRequest accountKey sc w =
     (if \<not> connected w \<or> ws_readyState w \<noteq> Some OPEN then Normal w
      else ws_send (SEND (accountDestination accountKey) sc) w)"

subsection \<open>Inbound frames\<close>

text \<open>
  One call \<^verbatim>\<open>callback(data)\<close>: the call is recorded; \<open>raises callback data\<close> says whether
  it ends in an exception. \<^verbatim>\<open>callbacks.forEach(callback => callback(data))\<close> calls them in
  order, and an exception leaves the loop.
\<close>

definition invoke :: "(nat \<Rightarrow> 'v \<Rightarrow> bool) \<Rightarrow> 'v \<Rightarrow> nat \<Rightarrow> 'v world \<Rightarrow> 'v world completion" where
  "invoke raises data callback w =
     (let w1 = w\<lparr>delivered := delivered w @ [(callback, data)]\<rparr>
      in if raises callback data then Throw w1 else Normal w1)"

fun forEach :: "(nat \<Rightarrow> 'v \<Rightarrow> bool) \<Rightarrow> 'v \<Rightarrow> nat list \<Rightarrow> 'v world \<Rightarrow> 'v world completion" where
  "forEach raises data [] w = Normal w"
| "forEach raises data (callback # rest) w =
     andThen (invoke raises data callback w) (forEach raises data rest)"

definition notifyCallbacks ::
  "(nat \<Rightarrow> 'v \<Rightarrow> bool) \<Rightarrow> string \<Rightarrow> 'v \<Rightarrow> 'v world \<Rightarrow> 'v world completion" where
  "notifyCallbacks raises destination data w =
     (case map_of (callbacks w) destination of
        None \<Rightarrow> Normal w
      | Some cbs \<Rightarrow> forEach raises data cbs w)"

definition notifyMarketCallbacks ::
  "(nat \<Rightarrow> 'v \<Rightarrow> bool) \<Rightarrow> string \<Rightarrow> 'v \<Rightarrow> 'v world \<Rightarrow> 'v world completion" where
  "notifyMarketCallbacks raises destination data w =
     (case map_of (marketCallbacks w) destination of
        None \<Rightarrow> Normal w
      | Some cbs \<Rightarrow> forEach raises data cbs w)"

definition notifyDepthCallbacks ::
  "(nat \<Rightarrow> 'v \<Rightarrow> bool) \<Rightarrow> string \<Rightarrow> 'v \<Rightarrow> 'v world \<Rightarrow> 'v world completion" where
  "notifyDepthCallbacks raises destination data w =
     (case map_of (depthCallbacks w) destination of
        None \<Rightarrow> Normal w
      | Some cbs \<Rightarrow> forEach raises data cbs w)"

definition notifyLastTradeCallbacks ::
  "(nat \<Rightarrow> 'v \<Rightarrow> bool) \<Rightarrow> string \<Rightarrow> 'v \<Rightarrow> 'v world \<Rightarrow> 'v world completion" where
  "notifyLastTradeCallbacks raises destination data w =
     (case map_of (lastTradeCallbacks w) destination of
        None \<Rightarrow> Normal w
      | Some cbs \<Rightarrow> forEach raises data cbs w)"

text \<open>
  The scan of \<^verbatim>\<open>handleStompMessage\<close> over the lines of the frame; the loop variables are
  \<open>(destination, body, inBody)\<close>.
\<close>

fun scanLines :: "string list \<Rightarrow> string \<times> string \<times> bool \<Rightarrow> string \<times> string \<times> bool" where
  "scanLines [] acc = acc"
| "scanLines (line # rest) (destination, body, inBody) =
     (if startsWith line ''destination:''
      then scanLines rest (trim (drop (length ''destination:'') line), body, inBody)
      else if line = [] then scanLines rest (destination, body, True)
      else if inBody \<and> line \<noteq> [NUL] then scanLines rest (destination, body @ line, inBody)
      else scanLines rest (destination, body, inBody))"

text \<open>
  \<^verbatim>\<open>JSON.parse\<close> belongs to the platform: \<open>parse\<close> gives the value of a text, or None
  where \<^verbatim>\<open>JSON.parse\<close> raises a SyntaxError.
\<close>

definition parseThen ::
  "(string \<Rightarrow> 'v option) \<Rightarrow> string \<Rightarrow> ('v \<Rightarrow> 'v world \<Rightarrow> 'v world completion) \<Rightarrow>
   'v world \<Rightarrow> 'v world completion" where
  "parseThen parse body k w = (case parse body of None \<Rightarrow> Throw w | Some data \<Rightarrow> k data w)"

definition handleStompMessage ::
  "(string \<Rightarrow> 'v option) \<Rightarrow> (nat \<Rightarrow> 'v \<Rightarrow> bool) \<Rightarrow> string \<Rightarrow> 'v world \<Rightarrow> 'v world completion" where
  "handleStompMessage parse raises message w =
     (let lines = split_str NL message;
          (destination, body, inBody) = scanLines lines ([], [], False)
      in if destination \<noteq> [] \<and> body \<noteq> [] then
           swallow
             (if str_includes destination ''/markets/'' \<and> str_includes destination ''/depth''
              then parseThen parse body (notifyDepthCallbacks raises destination) w
              else if str_includes destination ''/markets/'' \<and>
                      str_includes destination ''/last_trade''
              then parseThen parse body (notifyLastTradeCallbacks raises destination) w
              else if startsWith destination ''/market/''
              then parseThen parse body (notifyMarketCallbacks raises destination) w
              else parseThen parse body (notifyCallbacks raises destination) w)
         else Normal w)"

text \<open>
  The fallback of \<^verbatim>\<open>parseMessage\<close> parses the text and reads a field of the result inside
  a try block whose catch clause is empty: it changes nothing.
\<close>

definition parseMessage ::
  "(string \<Rightarrow> 'v option) \<Rightarrow> (nat \<Rightarrow> 'v \<Rightarrow> bool) \<Rightarrow> string \<Rightarrow> 'v world \<Rightarrow> 'v world completion" where
  "parseMessage parse raises message w =
     (if startsWith message ''CONNECTED''
      then resubscribeAll (w\<lparr>connected := True, reconnectAttempts := 0\<rparr>)
      else if startsWith message ''MESSAGE''
      then handleStompMessage parse raises message w
      else Normal w)"

subsection \<open>Disconnecting\<close>

definition disconnect :: "'v world \<Rightarrow> 'v world completion" where
  "disconnect w =
     andThen
       (case ws w of
          None \<Rightarrow> Normal w
        | Some h \<Rightarrow>
            andThen
              (if connected w \<and> readyStateOf w h = OPEN then ws_send DISCONNECT w else Normal w)
              (\<lambda>w1. Normal ((ws_close h w1)\<lparr>ws := None\<rparr>)))
       (\<lambda>w2. Normal (w2\<lparr>callbacks := [], marketCallbacks := [], depthCallbacks := [],
                        lastTradeCallbacks := [], subscriptions := [],
                        reconnectAttempts := 0, connected := False\<rparr>))"

definition isConnected :: "'v world \<Rightarrow> bool" where
  "isConnected w = (connected w \<and> ws_readyState w = Some OPEN)"

subsection \<open>Events\<close>

text \<open>
  What can happen to the client: a call of one of its public methods, a pending timer
  that fires (with the outcome of the WebSocket constructor it then calls), and the
  open, message, error and close events of a socket it created. A socket opens once,
  from the connecting state; it delivers messages while open; it closes once.
  \<^verbatim>\<open>handleMessage\<close> hands a string to \<^verbatim>\<open>parseMessage\<close> at once and the text of
  a Blob when it has been read: the message event stands for the call of
  \<^verbatim>\<open>parseMessage\<close>. Timers fire in any order. An exception that leaves a handler or a
  method is the caller's: the client keeps the state it had reached.
\<close>

datatype event =
    Call_connect
  | Call_disconnect
  | Call_subscribe string nat
  | Call_unsubscribe string nat
  | Call_subscribeToMarketData string nat nat
  | Call_unsubscribeFromMarketData string nat nat
  | Call_sendRequest string scope
  | TimerFires nat bool
  | SocketOpen nat
  | SocketMessage nat string
  | SocketError nat
  | SocketClose nat

definition perform ::
  "(string \<Rightarrow> 'v option) \<Rightarrow> (nat \<Rightarrow> 'v \<Rightarrow> bool) \<Rightarrow> event \<Rightarrow> 'v world \<Rightarrow> 'v world completion" where
  "perform parse raises e w =
     (case e of
        Call_connect \<Rightarrow> Normal (connect w)
      | Call_disconnect \<Rightarrow> disconnect w
      | Call_subscribe k c \<Rightarrow> subscribe k c w
      | Call_unsubscribe k c \<Rightarrow> unsubscribe k c w
      | Call_subscribeToMarketData k c d \<Rightarrow> subscribeToMarketData k c d w
      | Call_unsubscribeFromMarketData k c d \<Rightarrow> unsubscribeFromMarketData k c d w
      | Call_sendRequest k sc \<Rightarrow> sendRequest k sc w
      | TimerFires i ctorThrows \<Rightarrow>
          (if i < length (timers w)
           then Normal (connectInternal ctorThrows
                          (w\<lparr>timers := take i (timers w) @ drop (Suc i) (timers w)\<rparr>))
           else Normal w)
      | SocketOpen h \<Rightarrow>
          (if readyStateOf w h = CONNECTING
           then onopen (w\<lparr>sockets := (sockets w)[h := OPEN]\<rparr>) else Normal w)
      | SocketMessage h message \<Rightarrow>
          (if readyStateOf w h = OPEN then parseMessage parse raises message w else Normal w)
      | SocketError h \<Rightarrow> (if h < length (sockets w) then onerror w else Normal w)
      | SocketClose h \<Rightarrow>
          (if h < length (sockets w) \<and> readyStateOf w h \<noteq> CLOSED
           then onclose (w\<lparr>sockets := (sockets w)[h := CLOSED]\<rparr>) else Normal w))"

definition step ::
  "(string \<Rightarrow> 'v option) \<Rightarrow> (nat \<Rightarrow> 'v \<Rightarrow> bool) \<Rightarrow> event \<Rightarrow> 'v world \<Rightarrow> 'v world" where
  "step parse raises e w = state_of (perform parse raises e w)"

fun run ::
  "(string \<Rightarrow> 'v option) \<Rightarrow> (nat \<Rightarrow> 'v \<Rightarrow> bool) \<Rightarrow> event list \<Rightarrow> 'v world \<Rightarrow> 'v world" where
  "run parse raises [] w = w"
| "run parse raises (e # es) w = run parse raises es (step parse raises e w)"

section \<open>Notions used in the properties\<close>

subsection \<open>Frames sent\<close>

text \<open>
  The frames that the sockets accepted between two states, oldest first.
\<close>

definition emitted :: "'v world \<Rightarrow> 'v world \<Rightarrow> frame list" where
  "emitted w w' = map snd (drop (length (outbox w)) (outbox w'))"

fun isSubscribeFor :: "string \<Rightarrow> frame \<Rightarrow> bool" where
  "isSubscribeFor d (SUBSCRIBE i d') = (d' = d)"
| "isSubscribeFor d f = False"

fun isUnsubscribe :: "frame \<Rightarrow> bool" where
  "isUnsubscribe (UNSUBSCRIBE i) = True"
| "isUnsubscribe f = False"

text \<open>
  An UNSUBSCRIBE frame names an identifier only: among the frames \<open>fs\<close> it is for the
  destination \<open>d\<close> when one of them is the SUBSCRIBE frame that gave this identifier to \<open>d\<close>.
\<close>

fun isUnsubscribeFor :: "string \<Rightarrow> frame list \<Rightarrow> frame \<Rightarrow> bool" where
  "isUnsubscribeFor d fs (UNSUBSCRIBE i) = (SUBSCRIBE i d \<in> set fs)"
| "isUnsubscribeFor d fs f = False"

text \<open>A call of \<open>subscribe\<close> or \<open>unsubscribe\<close> for the account \<open>k\<close>.\<close>

definition onAccount :: "string \<Rightarrow> event \<Rightarrow> bool" where
  "onAccount k e =
     (case e of
        Call_subscribe k' c \<Rightarrow> k' = k
      | Call_unsubscribe k' c \<Rightarrow> k' = k
      | _ \<Rightarrow> False)"

definition tally :: "string \<Rightarrow> frame list \<Rightarrow> 'v world \<Rightarrow> bool" where
  "tally d fs w =
     (length (filter (isSubscribeFor d) fs) =
        length (filter isUnsubscribe fs) + (if has (subscriptions w) d then 1 else 0) \<and>
      (\<forall>i. map_of (subscriptions w) d = Some i \<longrightarrow> SUBSCRIBE i d \<in> set fs) \<and>
      (\<forall>i. UNSUBSCRIBE i \<in> set fs \<longrightarrow> SUBSCRIBE i d \<in> set fs))"

subsection \<open>Steps and dispatch\<close>


text \<open>The callbacks registered for a destination of the account registry, in order.\<close>

definition registered :: "'v world \<Rightarrow> string \<Rightarrow> nat list" where
  "registered w destination =
     (case map_of (callbacks w) destination of None \<Rightarrow> [] | Some cbs \<Rightarrow> cbs)"


subsection \<open>Sample frames, callbacks and sessions\<close>

definition connectedFrame :: string where
  "connectedFrame = ''CONNECTED'' @ [NL] @ ''version:1.2'' @ [NL, NL, NUL]"

definition accountBody :: string where
  "accountBody =
     ''{\"balance\":{\"account_key\":\"ACC1\",\"cash\":100.5,\"version_number\":3}}''"




text \<open>The same frame with the sentinel directly behind the body, as \<open>encode\<close> writes it.\<close>

definition attachedFrame :: string where
  "attachedFrame =
     ''MESSAGE'' @ [NL] @ ''destination:/account/ACC1/updates'' @ [NL, NL] @
     accountBody @ [NUL]"

definition noParse :: "string \<Rightarrow> unit option" where
  "noParse text = None"


definition quiet :: "nat \<Rightarrow> unit \<Rightarrow> bool" where
  "quiet callback data = False"


text \<open>
  \<open>handshake\<close>: \<open>connect()\<close>, its timer fires, the socket opens, the server answers
  CONNECTED. \<open>failedConnect\<close>: \<open>connect()\<close>, its timer fires, the socket closes before it
  opened, which arms the first reconnect timer.
\<close>

definition handshake :: "event list" where
  "handshake =
     [Call_connect, TimerFires 0 False, SocketOpen 0, SocketMessage 0 connectedFrame]"

definition failedConnect :: "event list" where
  "failedConnect = [Call_connect, TimerFires 0 False, SocketClose 0]"

section \<open>Properties\<close>

subsection \<open>Sockets, sending and sequencing\<close>

lemma ws_send_open:
  "ws w = Some h \<Longrightarrow> readyStateOf w h = OPEN \<Longrightarrow>
   ws_send msg w = Normal (w\<lparr>outbox := outbox w @ [(h, msg)]\<rparr>)"
  by (simp add: ws_send_def)

lemma readyStateOf_upd [simp]:
  "readyStateOf (w\<lparr>callbacks := m\<rparr>) h = readyStateOf w h"
  "readyStateOf (w\<lparr>subscriptions := sm\<rparr>) h = readyStateOf w h"
  "readyStateOf (w\<lparr>subscriptionCounter := n\<rparr>) h = readyStateOf w h"
  "readyStateOf (w\<lparr>outbox := ob\<rparr>) h = readyStateOf w h"
  "readyStateOf (w\<lparr>timers := ts\<rparr>) h = readyStateOf w h"
  by (simp_all add: readyStateOf_def)

lemma ws_readyState_upd [simp]:
  "ws_readyState (w\<lparr>callbacks := m\<rparr>) = ws_readyState w"
  "ws_readyState (w\<lparr>subscriptions := sm\<rparr>) = ws_readyState w"
  "ws_readyState (w\<lparr>subscriptionCounter := n\<rparr>) = ws_readyState w"
  "ws_readyState (w\<lparr>outbox := ob\<rparr>) = ws_readyState w"
  by (simp_all add: ws_readyState_def split: option.splits)

lemma keeps_andThen:
  "(\<And>w'. g (state_of (f w')) = g w') \<Longrightarrow> g (state_of (andThen m f)) = g (state_of m)"
  by (cases m) simp_all

lemma has_update [simp]: "has (AList.update k v m) k"
  by (simp add: has_def update_conv')

lemma has_delete [simp]: "\<not> has (AList.delete k m) k"
  by (simp add: has_def delete_conv')

subsection \<open>disconnect\<close>

text \<open>
  The method never raises: its only \<^verbatim>\<open>send\<close> runs on an open socket. What it leaves is
  the state before with the DISCONNECT frame sent (when connected), the socket closing,
  and the registries, the subscription map, the counter and the flag reset.
\<close>

lemma disconnect_Normal:
  "disconnect w =
     Normal
       ((case ws w of
           None \<Rightarrow> w
         | Some h \<Rightarrow>
             (ws_close h
                (if connected w \<and> readyStateOf w h = OPEN
                 then w\<lparr>outbox := outbox w @ [(h, DISCONNECT)]\<rparr> else w))\<lparr>ws := None\<rparr>)
        \<lparr>callbacks := [], marketCallbacks := [], depthCallbacks := [],
         lastTradeCallbacks := [], subscriptions := [], reconnectAttempts := 0,
         connected := False\<rparr>)"
proof (cases "ws w")
  case None
  then show ?thesis by (simp add: disconnect_def)
next
  case (Some h)
  then show ?thesis
    by (cases "connected w \<and> readyStateOf w h = OPEN")
      (auto simp add: disconnect_def ws_send_open)
qed

lemma timers_ws_close [simp]: "timers (ws_close h w) = timers w"
  by (simp add: ws_close_def)

lemma length_sockets_ws_close [simp]: "length (sockets (ws_close h w)) = length (sockets w)"
  by (simp add: ws_close_def)

lemma timers_disconnect: "timers (state_of (disconnect w)) = timers w"
  by (simp add: disconnect_Normal split: option.splits)

lemma length_sockets_disconnect:
  "length (sockets (state_of (disconnect w))) = length (sockets w)"
  by (simp add: disconnect_Normal split: option.splits)

text \<open>
  C10. From every state, \<open>disconnect\<close> completes without raising, and in the state it
  leaves \<open>isConnected\<close> is false, the socket reference is null, the four callback
  registries and the subscription map are empty and the reconnect attempt counter is
  zero.
\<close>

theorem disconnect_resets:
  "\<exists>w'. disconnect w = Normal w' \<and> \<not> isConnected w' \<and> ws w' = None \<and>
        callbacks w' = [] \<and> marketCallbacks w' = [] \<and> depthCallbacks w' = [] \<and>
        lastTradeCallbacks w' = [] \<and> subscriptions w' = [] \<and> reconnectAttempts w' = 0"
  by (simp add: disconnect_Normal isConnected_def split: option.splits)

text \<open>
  At a connected session with one subscription and three failed attempts behind it:
  the DISCONNECT frame is sent, the socket starts closing, everything is cleared.
\<close>

theorem disconnect_resets_witness:
  "disconnect
     (\<lparr> ws = Some 0, reconnectAttempts = 3, maxReconnectAttempts = 5, reconnectDelay = 1000,
        callbacks = [(''/account/ACC1/updates'', [7])], marketCallbacks = [],
        depthCallbacks = [], lastTradeCallbacks = [],
        subscriptions = [(''/account/ACC1/updates'', 1)], subscriptionCounter = 1,
        connected = True, sockets = [OPEN], outbox = [], timers = [],
        delivered = [] \<rparr> :: unit world)
   = Normal
       \<lparr> ws = None, reconnectAttempts = 0, maxReconnectAttempts = 5, reconnectDelay = 1000,
         callbacks = [], marketCallbacks = [], depthCallbacks = [], lastTradeCallbacks = [],
         subscriptions = [], subscriptionCounter = 1, connected = False,
         sockets = [CLOSING], outbox = [(0, DISCONNECT)], timers = [], delivered = [] \<rparr>"
  using disconnect_resets
    [of "\<lparr> ws = Some 0, reconnectAttempts = 3, maxReconnectAttempts = 5, reconnectDelay = 1000,
        callbacks = [(''/account/ACC1/updates'', [7])], marketCallbacks = [],
        depthCallbacks = [], lastTradeCallbacks = [],
        subscriptions = [(''/account/ACC1/updates'', 1)], subscriptionCounter = 1,
        connected = True, sockets = [OPEN], outbox = [], timers = [],
        delivered = [] \<rparr> :: unit world"]
  by (simp add: disconnect_def ws_send_def ws_close_def readyStateOf_def)

subsection \<open>The reconnection policy\<close>

text \<open>
  C4. With the default configuration (\<open>reconnectDelay = 1000\<close>,
  \<open>maxReconnectAttempts = 5\<close>), \<open>attemptReconnect\<close> arms a timer exactly when the attempt
  counter is below 5; the attempt then gets the number \<open>n\<close>, one more than the counter, and
  the delay of its timer is \<open>1000 * 2 ^ (n - 1)\<close> milliseconds. At the counter 5 nothing
  is armed and nothing changes. (The source computes the power in floating point; for the
  exponents 0 to 4 that is exact.)
\<close>

theorem attemptReconnect_default:
  assumes "maxReconnectAttempts w = 5" and "reconnectDelay w = 1000"
  shows "attemptReconnect w =
           (let n = reconnectAttempts w + 1 in
            if reconnectAttempts w < 5
            then w\<lparr>reconnectAttempts := n, timers := timers w @ [1000 * 2 ^ (n - 1)]\<rparr>
            else w)"
  using assms by (simp add: attemptReconnect_def Let_def)

text \<open>
  The first three attempts wait 1000, 2000 and 4000 milliseconds; after five attempts
  there is no retry.
\<close>

theorem attemptReconnect_default_witness:
  "timers (attemptReconnect (initial :: unit world)) = [1000] \<and>
   timers (attemptReconnect ((initial :: unit world)\<lparr>reconnectAttempts := 1\<rparr>)) = [2000] \<and>
   timers (attemptReconnect ((initial :: unit world)\<lparr>reconnectAttempts := 2\<rparr>)) = [4000] \<and>
   attemptReconnect ((initial :: unit world)\<lparr>reconnectAttempts := 5\<rparr>) =
     (initial :: unit world)\<lparr>reconnectAttempts := 5\<rparr>"
  using attemptReconnect_default [of "initial :: unit world"]
    attemptReconnect_default [of "(initial :: unit world)\<lparr>reconnectAttempts := 1\<rparr>"]
    attemptReconnect_default [of "(initial :: unit world)\<lparr>reconnectAttempts := 2\<rparr>"]
    attemptReconnect_default [of "(initial :: unit world)\<lparr>reconnectAttempts := 5\<rparr>"]
  by (simp add: initial_def)

subsection \<open>The reconnect attempt counter\<close>

text \<open>No method but the three named below writes the counter.\<close>

lemma ra_ws_send [simp]: "reconnectAttempts (state_of (ws_send msg w)) = reconnectAttempts w"
  by (simp add: ws_send_def split: option.splits readyState.splits)

lemma ra_subscribeToDestination [simp]:
  "reconnectAttempts (state_of (subscribeToDestination d w)) = reconnectAttempts w"
  by (simp add: subscribeToDestination_def Let_def)

lemma ra_subscribeEach [simp]:
  "reconnectAttempts (state_of (subscribeEach ds w)) = reconnectAttempts w"
  by (induction ds arbitrary: w) (simp_all add: keeps_andThen)

lemma ra_resubscribeAll [simp]:
  "reconnectAttempts (state_of (resubscribeAll w)) = reconnectAttempts w"
  by (simp add: resubscribeAll_def keeps_andThen)

lemma ra_subscribe [simp]:
  "reconnectAttempts (state_of (subscribe k c w)) = reconnectAttempts w"
  by (simp add: subscribe_def Let_def)

lemma ra_dropSubscription [simp]:
  "reconnectAttempts (state_of (dropSubscription d w)) = reconnectAttempts w"
  by (simp add: dropSubscription_def keeps_andThen split: option.splits)

lemma ra_unsubscribe [simp]:
  "reconnectAttempts (state_of (unsubscribe k c w)) = reconnectAttempts w"
  by (simp add: unsubscribe_def Let_def split: option.splits)

lemma ra_subscribeToMarketData [simp]:
  "reconnectAttempts (state_of (subscribeToMarketData k c d w)) = reconnectAttempts w"
  by (simp add: subscribeToMarketData_def Let_def keeps_andThen)

lemma ra_unsubscribeDepth [simp]:
  "reconnectAttempts (state_of (unsubscribeDepth k c w)) = reconnectAttempts w"
  by (simp add: unsubscribeDepth_def Let_def split: option.splits)

lemma ra_unsubscribeLastTrade [simp]:
  "reconnectAttempts (state_of (unsubscribeLastTrade k c w)) = reconnectAttempts w"
  by (simp add: unsubscribeLastTrade_def Let_def split: option.splits)

lemma ra_unsubscribeFromMarketData [simp]:
  "reconnectAttempts (state_of (unsubscribeFromMarketData k c d w)) = reconnectAttempts w"
  by (simp add: unsubscribeFromMarketData_def keeps_andThen)

lemma ra_sendRequest [simp]:
  "reconnectAttempts (state_of (sendRequest k sc w)) = reconnectAttempts w"
  by (simp add: sendRequest_def)

lemma ra_forEach [simp]:
  "reconnectAttempts (state_of (forEach raises data cbs w)) = reconnectAttempts w"
  by (induction cbs arbitrary: w) (simp_all add: keeps_andThen invoke_def Let_def)

lemma ra_handleStompMessage [simp]:
  "reconnectAttempts (state_of (handleStompMessage parse raises message w)) =
     reconnectAttempts w"
  by (simp add: handleStompMessage_def Let_def swallow_def parseThen_def
      notifyCallbacks_def notifyMarketCallbacks_def notifyDepthCallbacks_def
      notifyLastTradeCallbacks_def split: prod.splits option.splits)

lemma ra_onopen [simp]: "reconnectAttempts (state_of (onopen w)) = reconnectAttempts w"
  by (simp add: onopen_def sendConnect_def)




subsection \<open>connect and the timers\<close>

lemma fire_constructs:
  assumes "i < length (timers w)"
  shows "ws (step parse raises (TimerFires i False) w) = Some (length (sockets w)) \<and>
         sockets (step parse raises (TimerFires i False) w) = sockets w @ [CONNECTING]"
  using assms by (simp add: step_def perform_def connectInternal_def)

text \<open>
  C6, as the code has it. \<open>connect\<close> changes nothing exactly when the socket of the
  session is open or the \<open>connected\<close> flag is set (the states AwaitingAck and Connected).
  In every other state, also while the socket is still connecting (Opening), it arms one
  more timer of 500 milliseconds. A timer that fires, with a constructor that succeeds,
  constructs one more socket and leaves the sockets constructed before as they are.
\<close>

theorem connect_noop_iff:
  "(connect w = w) = (ws_readyState w = Some OPEN \<or> connected w) \<and>
   timers (connect w) =
     (if ws_readyState w = Some OPEN \<or> connected w then timers w else timers w @ [500]) \<and>
   (i < length (timers w) \<longrightarrow>
      sockets (step parse raises (TimerFires i False) w) = sockets w @ [CONNECTING])"
proof -
  have "w\<lparr>timers := timers w @ [500]\<rparr> \<noteq> w"
  proof
    assume "w\<lparr>timers := timers w @ [500]\<rparr> = w"
    then have "timers (w\<lparr>timers := timers w @ [500]\<rparr>) = timers w" by simp
    then show False by simp
  qed
  then show ?thesis
    using fire_constructs [of i w parse raises] by (simp add: connect_def)
qed

text \<open>
  After the handshake \<open>connect\<close> is a no-op; the timer of the first \<open>connect\<close> constructs
  the first socket.
\<close>

theorem connect_noop_iff_witness:
  "connect (run noParse quiet handshake initial) = run noParse quiet handshake initial \<and>
   sockets (step noParse quiet (TimerFires 0 False) (step noParse quiet Call_connect initial)) =
     [CONNECTING]"
proof -
  have a: "ws_readyState (run noParse quiet handshake initial) = Some OPEN"
    by code_simp
  have b: "(0::nat) < length (timers (step noParse quiet Call_connect initial))"
    by code_simp
  have c: "sockets (step noParse quiet Call_connect initial) = []"
    by code_simp
  show ?thesis
    using a b c connect_noop_iff [of "run noParse quiet handshake initial" 0 noParse quiet]
      connect_noop_iff [of "step noParse quiet Call_connect initial" 0 noParse quiet]
    by simp
qed

text \<open>
  The claim as the specification words it fails in the state Opening: after \<open>connect\<close>
  and its timer the socket is connecting and the flag is not set; a second \<open>connect\<close>
  arms a second timer, and when that fires there are two sockets, none of them closed.
\<close>

theorem connect_while_opening:
  "ws_readyState (run noParse quiet [Call_connect, TimerFires 0 False] initial) =
     Some CONNECTING \<and>
   timers (run noParse quiet [Call_connect, TimerFires 0 False] initial) = [] \<and>
   timers (run noParse quiet [Call_connect, TimerFires 0 False, Call_connect] initial) = [500] \<and>
   sockets (run noParse quiet
              [Call_connect, TimerFires 0 False, Call_connect, TimerFires 0 False] initial) =
     [CONNECTING, CONNECTING]"
  by code_simp

text \<open>
  C2, as the code has it. \<open>disconnect\<close> cancels nothing: every timer pending before
  the call is pending after it, and when one of them fires afterwards (with a constructor
  that succeeds) it constructs a new socket, which becomes the socket of the session.
\<close>

theorem disconnect_keeps_timers:
  "timers (step parse raises Call_disconnect w) = timers w \<and>
   (i < length (timers w) \<longrightarrow>
      ws (run parse raises [Call_disconnect, TimerFires i False] w) =
        Some (length (sockets w)) \<and>
      sockets (run parse raises [Call_disconnect, TimerFires i False] w) =
        sockets (step parse raises Call_disconnect w) @ [CONNECTING])"
proof -
  have t: "timers (step parse raises Call_disconnect w) = timers w"
    by (simp add: step_def perform_def timers_disconnect)
  have l: "length (sockets (step parse raises Call_disconnect w)) = length (sockets w)"
    by (simp add: step_def perform_def length_sockets_disconnect)
  show ?thesis
    using t l fire_constructs [of i "step parse raises Call_disconnect w" parse raises]
    by simp
qed

text \<open>
  The reconnect timer armed by a failed connection attempt survives \<open>disconnect\<close> and
  then opens the socket number 1.
\<close>

theorem disconnect_keeps_timers_witness:
  "timers (run noParse quiet failedConnect initial) = [1000] \<and>
   timers (step noParse quiet Call_disconnect (run noParse quiet failedConnect initial)) = [1000] \<and>
   ws (run noParse quiet [Call_disconnect, TimerFires 0 False]
         (run noParse quiet failedConnect initial)) = Some 1"
proof -
  have a: "timers (run noParse quiet failedConnect initial) = [1000]"
    by code_simp
  have b: "length (sockets (run noParse quiet failedConnect initial)) = 1"
    by code_simp
  show ?thesis
    using a b disconnect_keeps_timers [of noParse quiet "run noParse quiet failedConnect initial" 0]
    by simp
qed

text \<open>
  The claim as the specification words it fails: with the reconnect timer of a failed
  attempt pending, \<open>disconnect\<close> leaves the session without a socket and the timer
  pending; the timer then fires and the session has a new, connecting socket.
\<close>

theorem stale_timer_reconnects:
  "timers (run noParse quiet failedConnect initial) = [1000] \<and>
   ws (run noParse quiet (failedConnect @ [Call_disconnect]) initial) = None \<and>
   timers (run noParse quiet (failedConnect @ [Call_disconnect]) initial) = [1000] \<and>
   ws (run noParse quiet (failedConnect @ [Call_disconnect, TimerFires 0 False]) initial) =
     Some 1 \<and>
   sockets (run noParse quiet (failedConnect @ [Call_disconnect, TimerFires 0 False]) initial) =
     [CLOSED, CONNECTING]"
  by code_simp

text \<open>
  Moreover the close event of the socket that \<open>disconnect\<close> closed runs the handler
  installed on that socket, which arms a reconnect timer of its own.
\<close>

lemma close_after_disconnect_rearms:
  "timers (run noParse quiet (handshake @ [Call_disconnect]) initial) = [] \<and>
   timers (run noParse quiet (handshake @ [Call_disconnect, SocketClose 0]) initial) = [1000]"
  by code_simp

subsection \<open>Dispatch to the callbacks\<close>








subsection \<open>Decoding a MESSAGE frame\<close>












lemma scan_attachedFrame:
  "scanLines (split_str NL attachedFrame) ([], [], False) =
     (''/account/ACC1/updates'', accountBody @ [NUL], True)"
  by code_simp

lemma classify_account:
  "\<not> str_includes ''/account/ACC1/updates'' ''/markets/''"
  "\<not> startsWith ''/account/ACC1/updates'' ''/market/''"
  by code_simp+


lemma attachedFrame_is_MESSAGE:
  "\<not> startsWith attachedFrame ''CONNECTED''" "startsWith attachedFrame ''MESSAGE''"
  by code_simp+


text \<open>
  With the sentinel directly behind the body, the text handed to \<^verbatim>\<open>JSON.parse\<close> is the
  body followed by the sentinel; where the parser refuses it nothing is dispatched.
\<close>

lemma attached_sentinel_reaches_parser:
  assumes "parse (accountBody @ [NUL]) = None"
  shows "parseMessage parse raises attachedFrame w = Normal w"
proof -
  have "handleStompMessage parse raises attachedFrame w = Normal w"
    unfolding handleStompMessage_def Let_def scan_attachedFrame
    using assms classify_account
    by (simp add: parseThen_def swallow_def del: str_includes.simps)
  then show ?thesis
    using attachedFrame_is_MESSAGE by (simp add: parseMessage_def)
qed




subsection \<open>SUBSCRIBE and UNSUBSCRIBE frames of one destination\<close>

text \<open>
  \<open>tally d fs w\<close>: among the frames \<open>fs\<close> sent so far there is one SUBSCRIBE for \<open>d\<close> more
  than there are UNSUBSCRIBE frames when \<open>d\<close> has a subscription in \<open>w\<close>, and as many
  otherwise; the identifier of the subscription and of every UNSUBSCRIBE frame was given
  to \<open>d\<close> by a SUBSCRIBE frame of \<open>fs\<close>. Calls for the account keep it.
\<close>

lemma tally_callbacks [simp]: "tally d fs (w\<lparr>callbacks := m\<rparr>) = tally d fs w"
  by (simp add: tally_def)

lemma tally_subscribeToDestination:
  assumes "tally d fs w" and "ws_readyState w = Some OPEN"
  shows "\<exists>gs. outbox (state_of (subscribeToDestination d w)) = outbox w @ gs \<and>
              tally d (fs @ map snd gs) (state_of (subscribeToDestination d w))"
proof (cases "has (subscriptions w) d")
  case True
  with assms show ?thesis by (simp add: subscribeToDestination_def)
next
  case False
  from assms(2) obtain h where h: "ws w = Some h" "readyStateOf w h = OPEN"
    by (auto simp: ws_readyState_def split: option.splits)
  let ?n = "subscriptionCounter w + 1"
  let ?w2 = "w\<lparr>subscriptionCounter := ?n, subscriptions := AList.update d ?n (subscriptions w)\<rparr>"
  have r: "ws_readyState ?w2 = Some OPEN" "ws ?w2 = Some h" "readyStateOf ?w2 h = OPEN"
    using h assms(2) by simp_all
  have "subscribeToDestination d w = Normal (?w2\<lparr>outbox := outbox w @ [(h, SUBSCRIBE ?n d)]\<rparr>)"
    using False r by (simp add: subscribeToDestination_def Let_def ws_send_open)
  moreover have "tally d (fs @ [SUBSCRIBE ?n d]) (?w2\<lparr>outbox := outbox w @ [(h, SUBSCRIBE ?n d)]\<rparr>)"
    using assms(1) False by (auto simp: tally_def update_conv' has_def)
  ultimately show ?thesis by simp
qed

lemma tally_subscribe:
  assumes "tally (accountDestination k) fs w"
  shows "\<exists>gs. outbox (state_of (subscribe k c w)) = outbox w @ gs \<and>
              tally (accountDestination k) (fs @ map snd gs) (state_of (subscribe k c w))"
proof -
  let ?w1 = "w\<lparr>callbacks := register (accountDestination k) c (callbacks w)\<rparr>"
  show ?thesis
  proof (cases "connected w \<and> ws_readyState w = Some OPEN")
    case True
    then have o: "ws_readyState ?w1 = Some OPEN"
      by simp
    have t: "tally (accountDestination k) fs ?w1" using assms by simp
    from tally_subscribeToDestination [OF t o] True o show ?thesis
      by (simp add: subscribe_def Let_def)
  next
    case False
    then have "subscribe k c w = Normal ?w1"
      by (auto simp add: subscribe_def Let_def)
    with assms show ?thesis by simp
  qed
qed

lemma tally_dropSubscription:
  assumes "tally d fs w"
  shows "\<exists>gs. outbox (state_of (dropSubscription d w)) = outbox w @ gs \<and>
              tally d (fs @ map snd gs) (state_of (dropSubscription d w))"
proof (cases "map_of (subscriptions w) d")
  case None
  with assms show ?thesis by (simp add: dropSubscription_def)
next
  case (Some i)
  show ?thesis
  proof (cases "i \<noteq> 0 \<and> ws_readyState w = Some OPEN")
    case False
    with Some assms show ?thesis by (auto simp add: dropSubscription_def)
  next
    case True
    then obtain h where h: "ws w = Some h" "readyStateOf w h = OPEN"
      by (auto simp: ws_readyState_def split: option.splits)
    let ?w' = "w\<lparr>outbox := outbox w @ [(h, UNSUBSCRIBE i)],
                  subscriptions := AList.delete d (subscriptions w)\<rparr>"
    have "dropSubscription d w = Normal ?w'"
      using Some True h by (simp add: dropSubscription_def ws_send_open)
    moreover have "tally d (fs @ [UNSUBSCRIBE i]) ?w'"
      using assms Some by (auto simp: tally_def delete_conv' has_def)
    ultimately show ?thesis by simp
  qed
qed

lemma tally_unsubscribe:
  assumes "tally (accountDestination k) fs w"
  shows "\<exists>gs. outbox (state_of (unsubscribe k c w)) = outbox w @ gs \<and>
              tally (accountDestination k) (fs @ map snd gs) (state_of (unsubscribe k c w))"
proof (cases "map_of (callbacks w) (accountDestination k)")
  case None
  with assms show ?thesis by (simp add: unsubscribe_def)
next
  case (Some cbs)
  show ?thesis
  proof (cases "remove1 c cbs = []")
    case False
    with Some assms show ?thesis by (simp add: unsubscribe_def Let_def)
  next
    case True
    let ?w1 = "w\<lparr>callbacks := AList.delete (accountDestination k)
                   (AList.update (accountDestination k) [] (callbacks w))\<rparr>"
    have t: "tally (accountDestination k) fs ?w1" using assms by simp
    have "unsubscribe k c w = dropSubscription (accountDestination k) ?w1"
      using Some True by (simp add: unsubscribe_def Let_def)
    with tally_dropSubscription [OF t] show ?thesis by simp
  qed
qed

lemma tally_step:
  assumes "onAccount k e" and "tally (accountDestination k) fs w"
  shows "\<exists>gs. outbox (step parse raises e w) = outbox w @ gs \<and>
              tally (accountDestination k) (fs @ map snd gs) (step parse raises e w)"
  using assms tally_subscribe tally_unsubscribe
  by (cases e) (auto simp: onAccount_def step_def perform_def)

lemma tally_run:
  assumes "list_all (onAccount k) es" and "tally (accountDestination k) fs w"
  shows "\<exists>gs. outbox (run parse raises es w) = outbox w @ gs \<and>
              tally (accountDestination k) (fs @ map snd gs) (run parse raises es w)"
  using assms
proof (induction es arbitrary: w fs)
  case Nil
  then show ?case by simp
next
  case (Cons e es)
  from Cons.prems have e: "onAccount k e" and es: "list_all (onAccount k) es" by simp_all
  from tally_step [OF e Cons.prems(2)] obtain gs where
    gs: "outbox (step parse raises e w) = outbox w @ gs"
        "tally (accountDestination k) (fs @ map snd gs) (step parse raises e w)" by blast
  from Cons.IH [OF es gs(2)] obtain hs where
    hs: "outbox (run parse raises es (step parse raises e w)) = outbox (step parse raises e w) @ hs"
        "tally (accountDestination k) ((fs @ map snd gs) @ map snd hs)
           (run parse raises es (step parse raises e w))" by blast
  show ?case
    using gs hs by (intro exI [of _ "gs @ hs"]) simp
qed

text \<open>
  C7. Start in any state in which the destination of the account \<open>k\<close> has no
  subscription, and make any sequence of \<open>subscribe\<close> and \<open>unsubscribe\<close> calls for this
  account. Among the frames sent during the sequence, the number of SUBSCRIBE frames for
  the destination is the number of UNSUBSCRIBE frames for it plus one when the destination
  has a subscription at the end, and equal to it otherwise: so it never exceeds it by more
  than one, and at most one subscription is open at a time.
\<close>

theorem subscribe_unsubscribe_balance:
  assumes "list_all (onAccount k) es"
    and "\<not> has (subscriptions w) (accountDestination k)"
  shows "length (filter (isSubscribeFor (accountDestination k))
                   (emitted w (run parse raises es w))) =
         length (filter (isUnsubscribeFor (accountDestination k)
                           (emitted w (run parse raises es w)))
                   (emitted w (run parse raises es w))) +
         (if has (subscriptions (run parse raises es w)) (accountDestination k) then 1 else 0) \<and>
         filter isUnsubscribe (emitted w (run parse raises es w)) =
         filter (isUnsubscribeFor (accountDestination k) (emitted w (run parse raises es w)))
           (emitted w (run parse raises es w))"
proof -
  have "tally (accountDestination k) [] w"
    using assms(2) by (simp add: tally_def has_def)
  from tally_run [OF assms(1) this] obtain gs where
    gs: "outbox (run parse raises es w) = outbox w @ gs"
        "tally (accountDestination k) (map snd gs) (run parse raises es w)" by auto
  have em: "emitted w (run parse raises es w) = map snd gs"
    using gs(1) by (simp add: emitted_def)
  have "filter (isUnsubscribeFor (accountDestination k) (map snd gs)) (map snd gs) =
        filter isUnsubscribe (map snd gs)"
  proof (rule filter_cong [OF refl])
    fix f assume "f \<in> set (map snd gs)"
    with gs(2) show "isUnsubscribeFor (accountDestination k) (map snd gs) f = isUnsubscribe f"
      by (cases f) (auto simp: tally_def)
  qed
  with gs(2) em show ?thesis by (simp add: tally_def)
qed

text \<open>
  On a connected session: two callbacks come, both go, a third comes. The frames sent
  are SUBSCRIBE 1, UNSUBSCRIBE 1, SUBSCRIBE 2.
\<close>

theorem subscribe_unsubscribe_balance_witness:
  "emitted (run noParse quiet handshake initial)
     (run noParse quiet
        [Call_subscribe ''ACC1'' 1, Call_subscribe ''ACC1'' 2, Call_unsubscribe ''ACC1'' 1,
         Call_unsubscribe ''ACC1'' 2, Call_subscribe ''ACC1'' 3]
        (run noParse quiet handshake initial)) =
     [SUBSCRIBE 1 ''/account/ACC1/updates'', UNSUBSCRIBE 1, SUBSCRIBE 2 ''/account/ACC1/updates''] \<and>
   length (filter (isSubscribeFor (accountDestination ''ACC1''))
     (emitted (run noParse quiet handshake initial)
        (run noParse quiet
           [Call_subscribe ''ACC1'' 1, Call_subscribe ''ACC1'' 2, Call_unsubscribe ''ACC1'' 1,
            Call_unsubscribe ''ACC1'' 2, Call_subscribe ''ACC1'' 3]
           (run noParse quiet handshake initial)))) = 2 \<and>
   length (filter isUnsubscribe
     (emitted (run noParse quiet handshake initial)
        (run noParse quiet
           [Call_subscribe ''ACC1'' 1, Call_subscribe ''ACC1'' 2, Call_unsubscribe ''ACC1'' 1,
            Call_unsubscribe ''ACC1'' 2, Call_subscribe ''ACC1'' 3]
           (run noParse quiet handshake initial)))) = 1"
proof -
  have a: "list_all (onAccount ''ACC1'')
        [Call_subscribe ''ACC1'' 1, Call_subscribe ''ACC1'' 2, Call_unsubscribe ''ACC1'' 1,
         Call_unsubscribe ''ACC1'' 2, Call_subscribe ''ACC1'' 3]"
    by code_simp
  have b: "\<not> has (subscriptions (run noParse quiet handshake initial)) (accountDestination ''ACC1'')"
    by code_simp
  have c: "emitted (run noParse quiet handshake initial)
     (run noParse quiet
        [Call_subscribe ''ACC1'' 1, Call_subscribe ''ACC1'' 2, Call_unsubscribe ''ACC1'' 1,
         Call_unsubscribe ''ACC1'' 2, Call_subscribe ''ACC1'' 3]
        (run noParse quiet handshake initial)) =
     [SUBSCRIBE 1 ''/account/ACC1/updates'', UNSUBSCRIBE 1, SUBSCRIBE 2 ''/account/ACC1/updates'']"
    by code_simp
  show ?thesis
    using c subscribe_unsubscribe_balance [OF a b, of noParse quiet]
    by (simp add: accountDestination_def)
qed

subsection \<open>Subscriptions across a lost connection\<close>

text \<open>
  A destination that is in the subscription map is never subscribed again, and the
  close event of a socket leaves the map as it is.
\<close>

lemma known_destination_skipped:
  "has (subscriptions w) d \<Longrightarrow> subscribeToDestination d w = Normal w"
  by (simp add: subscribeToDestination_def)

lemma onclose_keeps_subscriptions:
  "subscriptions (state_of (onclose w)) = subscriptions w"
  by (simp add: onclose_def attemptReconnect_def Let_def)

text \<open>
  C1 at a concrete session. The session connects, callback 7 subscribes to the updates
  of the account ACC1 (SUBSCRIBE 1 goes out on socket 0), the socket closes, the reconnect
  timer fires, socket 1 opens and the server answers CONNECTED. Callback 7 is still
  registered and the session is connected, but the only frame sent on socket 1 is CONNECT:
  the destination gets no new SUBSCRIBE frame.
\<close>

theorem resubscribe_omits_known_destination:
  "registered
     (run noParse quiet
        (handshake @ [Call_subscribe ''ACC1'' 7, SocketClose 0, TimerFires 0 False,
                      SocketOpen 1, SocketMessage 1 connectedFrame]) initial)
     ''/account/ACC1/updates'' = [7] \<and>
   isConnected
     (run noParse quiet
        (handshake @ [Call_subscribe ''ACC1'' 7, SocketClose 0, TimerFires 0 False,
                      SocketOpen 1, SocketMessage 1 connectedFrame]) initial) \<and>
   outbox
     (run noParse quiet
        (handshake @ [Call_subscribe ''ACC1'' 7, SocketClose 0, TimerFires 0 False,
                      SocketOpen 1, SocketMessage 1 connectedFrame]) initial) =
     [(0, CONNECT), (0, SUBSCRIBE 1 ''/account/ACC1/updates''), (1, CONNECT)]"
  by code_simp

text \<open>
  C8 at a concrete session. The session connects, callback 7 subscribes to the updates
  of the account ACC1, the socket closes, and callback 7, the last one of the destination,
  unsubscribes. The callback list of the destination is deleted, its entry in the
  subscription map is not. After the reconnection a new callback for the same account
  causes no SUBSCRIBE frame.
\<close>

theorem unsubscribe_keeps_subscription_when_closed:
  "callbacks
     (run noParse quiet
        (handshake @ [Call_subscribe ''ACC1'' 7, SocketClose 0, Call_unsubscribe ''ACC1'' 7])
        initial) = [] \<and>
   subscriptions
     (run noParse quiet
        (handshake @ [Call_subscribe ''ACC1'' 7, SocketClose 0, Call_unsubscribe ''ACC1'' 7])
        initial) = [(''/account/ACC1/updates'', 1)] \<and>
   outbox
     (run noParse quiet
        (handshake @ [Call_subscribe ''ACC1'' 7, SocketClose 0, Call_unsubscribe ''ACC1'' 7,
                      TimerFires 0 False, SocketOpen 1, SocketMessage 1 connectedFrame,
                      Call_subscribe ''ACC1'' 8])
        initial) =
     [(0, CONNECT), (0, SUBSCRIBE 1 ''/account/ACC1/updates''), (1, CONNECT)]"
  by code_simp

end
